theory Spec2Isabelle
  imports Main
begin

section \<open>Python strings\<close>

text \<open>
  A Python \<open>str\<close> is a sequence of Unicode code points and \<open>len\<close> counts code points,
  so a string is modelled as a list of code points (natural numbers). ASCII literals of
  the source are written through \<open>lit\<close>; the three pictographs the handlers print are
  given by their code points.
\<close>

type_synonym str = "nat list"

definition lit :: "string \<Rightarrow> str" where
  "lit s = map of_char s"

definition play_button :: str where
  "play_button = [0x25B6, 0xFE0F]"

definition check_mark :: str where
  "check_mark = [0x2705]"

definition cross_mark :: str where
  "cross_mark = [0x274C]"

text \<open>\<open>s.startswith(p)\<close>.\<close>

definition startswith :: "str \<Rightarrow> str \<Rightarrow> bool" where
  "startswith s p = (take (length p) s = p)"

text \<open>
  \<open>s.split(sep, maxsplit)\<close> for a separator of one character: cut at the first
  \<open>maxsplit\<close> occurrences of the separator and keep every piece, empty ones included.
\<close>

fun str_split :: "nat \<Rightarrow> nat \<Rightarrow> str \<Rightarrow> str list" where
  "str_split sep 0 s = [s]"
| "str_split sep (Suc n) s =
     (if sep \<in> set s
      then takeWhile (\<lambda>c. c \<noteq> sep) s # str_split sep n (tl (dropWhile (\<lambda>c. c \<noteq> sep) s))
      else [s])"

text \<open>\<open>sep.join(parts)\<close> for a separator of one character.\<close>

fun str_join :: "nat \<Rightarrow> str list \<Rightarrow> str" where
  "str_join sep [] = []"
| "str_join sep [p] = p"
| "str_join sep (p # q # ps) = p @ sep # str_join sep (q # ps)"

text \<open>
  \<open>s.lower()\<close> on the ASCII letters. The repository calls it on the method names
  \<open>"POST"\<close> and \<open>"PUT"\<close> only.
\<close>

definition lower_char :: "nat \<Rightarrow> nat" where
  "lower_char c = (if 65 \<le> c \<and> c \<le> 90 then c + 32 else c)"

definition lower :: "str \<Rightarrow> str" where
  "lower s = map lower_char s"

text \<open>\<open>str(n)\<close> for an integer: its decimal digits, with a sign when negative.\<close>

fun str_nat :: "nat \<Rightarrow> str" where
  "str_nat n = (if n < 10 then [48 + n] else str_nat (n div 10) @ [48 + n mod 10])"

definition str_int :: "int \<Rightarrow> str" where
  "str_int i = (if i < 0 then 45 # str_nat (nat (- i)) else str_nat (nat i))"

section \<open>The collaborators: JSON library, HTTP library, chat platform\<close>

text \<open>
  The handlers call Python's \<open>json\<close> module, the \<open>requests\<close> package and the chat
  platform's \<open>reply_text\<close>. None of them is code of the repository, so they are taken as
  parameters: a record of the JSON functions over an arbitrary type \<open>'j\<close> of JSON values,
  and a function from the request made to what \<open>requests\<close> returns or raises. What a
  call raises is part of its result, sorted the way the handlers' \<open>except\<close> clauses sort
  it.
\<close>

text \<open>
  A call inside the inner \<open>try\<close> of lines 65-70 returns, raises a \<open>ValueError\<close> (which
  that \<open>try\<close> catches), or raises something else, a \<open>RecursionError\<close> on deep nesting
  for one, which only \<open>except Exception\<close> catches; \<open>RaisesOther\<close> carries its \<open>str(e)\<close>.
\<close>

datatype 'a outcome =
  Returns 'a
| RaisesValueError
| RaisesOther str

text \<open>
  A \<open>json.JSONDecodeError\<close>. The standard library builds its text, \<open>str(e)\<close>, from the
  message, the line, the column and the position as
  \<open>'%s: line %d column %d (char %d)'\<close>.
\<close>

record decode_error =
  err_msg :: str
  err_lineno :: nat
  err_colno :: nat
  err_pos :: nat

definition str_decode_error :: "decode_error \<Rightarrow> str" where
  "str_decode_error e =
     err_msg e @ lit '': line '' @ str_nat (err_lineno e) @ lit '' column ''
     @ str_nat (err_colno e) @ lit '' (char '' @ str_nat (err_pos e) @ lit '')''"

text \<open>
  \<open>json.loads(s)\<close> returns the parsed value, raises \<open>JSONDecodeError\<close>, or raises another
  exception (\<open>RecursionError\<close> on deeply nested text), carried as its \<open>str(e)\<close>.
\<close>

datatype 'j loads_outcome =
  Parsed 'j
| JSONDecodeError decode_error
| LoadsRaises str

record 'j json_lib =
  loads :: "str \<Rightarrow> 'j loads_outcome"
    \<comment> \<open>\<open>json.loads(s)\<close>\<close>
  is_none :: "'j \<Rightarrow> bool"
    \<comment> \<open>the value is \<open>None\<close>, what \<open>null\<close> parses to\<close>
  dumps :: "'j \<Rightarrow> str option"
    \<comment> \<open>the encoding \<open>requests\<close> makes of its \<open>json=\<close> argument; \<open>None\<close> when the
        encoder raises and \<open>requests\<close> gives up with \<open>InvalidJSONError\<close>\<close>
  dumps_indent :: "'j \<Rightarrow> str outcome"
    \<comment> \<open>\<open>json.dumps(v, indent=2, ensure_ascii=False)\<close>\<close>
  dumps_headers :: "(str \<times> str) list \<Rightarrow> str"
    \<comment> \<open>\<open>json.dumps(dict(h), indent=2, ensure_ascii=False)\<close> on a header mapping\<close>

record 'j response =
  status_code :: int
  reason :: str
  headers :: "(str \<times> str) list"
  content :: "nat list"
    \<comment> \<open>\<open>response.content\<close>, the raw bytes\<close>
  text_body :: str
    \<comment> \<open>\<open>response.text\<close>\<close>
  json_body :: "'j outcome"
    \<comment> \<open>\<open>response.json()\<close>\<close>

record 'j request =
  req_method :: str
    \<comment> \<open>which of \<open>requests.get\<close>, \<open>post\<close>, \<open>put\<close>, \<open>delete\<close> is called\<close>
  req_url :: str
  req_json :: "'j option"
  req_timeout :: nat

text \<open>
  What the \<open>try\<close> block of a handler can see of the call: a response, a
  \<open>requests.exceptions.Timeout\<close>, another \<open>RequestException\<close>, or any other
  \<open>Exception\<close>; the exceptions carry \<open>str(e)\<close>.
\<close>

datatype 'j net_result =
  Response "'j response"
| Timeout
| RequestException str
| OtherException str

text \<open>
  The effects of one invocation, in order: a \<open>reply_text\<close> with its text and its
  \<open>parse_mode\<close> (\<open>None\<close> when the call passes none), an outbound HTTP call, or the end
  of the handler by an exception that none of its \<open>except\<close> clauses catches.
\<close>

datatype 'j event =
  Reply str "str option"
| NetCall "'j request"
| Uncaught str

section \<open>Fragments shared by the handlers\<close>

text \<open>The URL check of lines 55, 108 and 177.\<close>

definition url_has_scheme :: "str \<Rightarrow> bool" where
  "url_has_scheme url =
     (startswith url (lit ''http://'') \<or> startswith url (lit ''https://''))"

definition invalid_url_text :: str where
  "invalid_url_text = lit ''Invalid URL. Please include http:// or https://''"

text \<open>The truncation of lines 75-78, repeated at 142-145 and 196-197.\<close>

definition truncate_body :: "str \<Rightarrow> str" where
  "truncate_body response_body_formatted =
     (if length response_body_formatted > 3500
      then take 3500 response_body_formatted
           @ lit ''\<newline>\<newline>... (response body truncated)''
      else response_body_formatted)"

definition truncate_headers :: "str \<Rightarrow> str" where
  "truncate_headers response_headers_formatted =
     (if length response_headers_formatted > 1000
      then take 1000 response_headers_formatted
           @ lit ''\<newline>\<newline>... (headers truncated)''
      else response_headers_formatted)"

text \<open>
  Lines 65-70 and 134-138: pretty-print the body when \<open>response.json()\<close> and
  \<open>json.dumps\<close> return, take \<open>response.text\<close> when one of them raises \<open>ValueError\<close>.
  Any other exception leaves the inner \<open>try\<close>: \<open>Inl\<close> carries it to the outer one.
\<close>

definition format_body :: "'j json_lib \<Rightarrow> 'j response \<Rightarrow> str + str" where
  "format_body lib response =
     (case json_body response of
        Returns response_json \<Rightarrow>
          (case dumps_indent lib response_json of
             Returns response_body_formatted \<Rightarrow> Inr response_body_formatted
           | RaisesValueError \<Rightarrow> Inr (text_body response)
           | RaisesOther e \<Rightarrow> Inl e)
      | RaisesValueError \<Rightarrow> Inr (text_body response)
      | RaisesOther e \<Rightarrow> Inl e)"

definition markdown_v2 :: "str option" where
  "markdown_v2 = Some (lit ''MarkdownV2'')"

section \<open>The GET handler\<close>

text \<open>
  Lines 81-92: the text of the final reply, from what the \<open>try\<close> block saw. The text
  of line 92 answers every exception that reaches \<open>except Exception\<close>, from the call or
  from the formatting of the body.
\<close>

definition get_unexpected_error_text :: "str \<Rightarrow> str \<Rightarrow> str" where
  "get_unexpected_error_text url e =
     cross_mark @ lit '' *An unexpected error occurred for '' @ url
     @ lit ''*\<newline>\<newline>`'' @ e @ lit ''`''"

definition get_reply_message :: "'j json_lib \<Rightarrow> str \<Rightarrow> 'j net_result \<Rightarrow> str" where
  "get_reply_message lib url outcome =
     (case outcome of
        Response response \<Rightarrow>
          (case format_body lib response of
             Inl e \<Rightarrow> get_unexpected_error_text url e
           | Inr body \<Rightarrow>
               (let response_body_formatted = truncate_body body;
                    response_headers_formatted =
                      truncate_headers (dumps_headers lib (headers response))
                in check_mark @ lit '' *GET Response from '' @ url @ lit ''*\<newline>\<newline>''
                   @ lit ''*Status Code:* `'' @ str_int (status_code response) @ lit '' ''
                   @ reason response @ lit ''`\<newline>\<newline>''
                   @ lit ''*Headers:*\<newline>```json\<newline>'' @ response_headers_formatted
                   @ lit ''\<newline>```\<newline>\<newline>''
                   @ lit ''*Body:*\<newline>```json\<newline>'' @ response_body_formatted
                   @ lit ''\<newline>```''))
      | Timeout \<Rightarrow>
          cross_mark @ lit '' *Timeout Error*\<newline>\<newline>The request to '' @ url
          @ lit '' timed out.''
      | RequestException e \<Rightarrow>
          cross_mark @ lit '' *Request Error for '' @ url @ lit ''*\<newline>\<newline>`'' @ e
          @ lit ''`''
      | OtherException e \<Rightarrow> get_unexpected_error_text url e)"

text \<open>
  \<open>handle_get\<close>, lines 46-94. \<open>args\<close> is \<open>context.args\<close>, the tokens the platform found
  after the command name.
\<close>

definition handle_get ::
  "'j json_lib \<Rightarrow> ('j request \<Rightarrow> 'j net_result) \<Rightarrow> str list \<Rightarrow> 'j event list" where
  "handle_get lib net args =
     (case args of
        [] \<Rightarrow> [Reply (lit ''Please provide a URL.\<newline>Usage: `/get <URL>`'') None]
      | url # _ \<Rightarrow>
          if \<not> url_has_scheme url then [Reply invalid_url_text None]
          else
            let call = \<lparr>req_method = lit ''GET'', req_url = url, req_json = None,
                        req_timeout = 15\<rparr>
            in [Reply (play_button @ lit '' Sending GET request to: '' @ url @ lit ''...'')
                  None,
                NetCall call,
                Reply (get_reply_message lib url (net call)) markdown_v2])"

section \<open>The POST and PUT handlers\<close>

text \<open>Lines 147-158: the text of the final reply.\<close>

definition post_put_unexpected_error_text :: "str \<Rightarrow> str \<Rightarrow> str \<Rightarrow> str" where
  "post_put_unexpected_error_text method url e =
     cross_mark @ lit '' *An unexpected error occurred for '' @ method @ lit '' to ''
     @ url @ lit ''*\<newline>\<newline>`'' @ e @ lit ''`''"

definition post_put_reply_message ::
  "'j json_lib \<Rightarrow> str \<Rightarrow> str \<Rightarrow> 'j net_result \<Rightarrow> str" where
  "post_put_reply_message lib method url outcome =
     (case outcome of
        Response response \<Rightarrow>
          (case format_body lib response of
             Inl e \<Rightarrow> post_put_unexpected_error_text method url e
           | Inr body \<Rightarrow>
               (let response_body_formatted = truncate_body body;
                    response_headers_formatted =
                      truncate_headers (dumps_headers lib (headers response))
                in check_mark @ lit '' *'' @ method @ lit '' Response from '' @ url
                   @ lit ''*\<newline>\<newline>''
                   @ lit ''*Status Code:* `'' @ str_int (status_code response) @ lit '' ''
                   @ reason response @ lit ''`\<newline>\<newline>''
                   @ lit ''*Body:*\<newline>```json\<newline>'' @ response_body_formatted
                   @ lit ''\<newline>```''))
      | Timeout \<Rightarrow>
          cross_mark @ lit '' *Timeout Error*\<newline>\<newline>The '' @ method
          @ lit '' request to '' @ url @ lit '' timed out.''
      | RequestException e \<Rightarrow>
          cross_mark @ lit '' *Request Error for '' @ method @ lit '' to '' @ url
          @ lit ''*\<newline>\<newline>`'' @ e @ lit ''`''
      | OtherException e \<Rightarrow> post_put_unexpected_error_text method url e)"

text \<open>The replies of lines 104 and 118-119, and the notice of line 122.\<close>

definition missing_url_text :: "str \<Rightarrow> str" where
  "missing_url_text method =
     lit ''Please provide a URL.\<newline>Usage: `/'' @ lower method
     @ lit '' <URL> <JSON_DATA>`''"

definition invalid_json_text :: "str \<Rightarrow> str \<Rightarrow> str" where
  "invalid_json_text method e =
     lit ''Invalid JSON data provided for '' @ method @ lit '' request.\<newline>Error: `''
     @ e @ lit ''`\<newline>'' @ lit ''Please ensure it's a well-formed JSON string.''"

definition sending_text :: "str \<Rightarrow> str \<Rightarrow> str \<Rightarrow> str" where
  "sending_text method url json_data_str =
     play_button @ lit '' Sending '' @ method @ lit '' request to: '' @ url
     @ lit '' with data: `'' @ take 200 json_data_str
     @ (if length json_data_str > 200 then lit ''...'' else []) @ lit ''`...''"

text \<open>Line 112: the payload text is the third part, \<open>"{}"\<close> when there is none.\<close>

definition payload_text :: "str list \<Rightarrow> str" where
  "payload_text parts = (if length parts > 2 then parts ! 2 else lit ''{}'')"

text \<open>
  \<open>handle_post_put\<close>, lines 97-160. \<open>message_text\<close> is \<open>update.message.text\<close>, the whole
  message with the command name in front; 32 is the space character. Line 117 catches
  \<open>JSONDecodeError\<close> only: any other exception of \<open>json.loads\<close> leaves the handler
  before it has replied.
\<close>

definition handle_post_put ::
  "'j json_lib \<Rightarrow> ('j request \<Rightarrow> 'j net_result) \<Rightarrow> str \<Rightarrow> str \<Rightarrow> 'j event list" where
  "handle_post_put lib net method message_text =
     (let parts = str_split 32 2 message_text in
      if length parts < 2 then [Reply (missing_url_text method) None]
      else
        let url = parts ! 1 in
        if \<not> url_has_scheme url then [Reply invalid_url_text None]
        else
          let json_data_str = payload_text parts in
          case loads lib json_data_str of
            JSONDecodeError e \<Rightarrow>
              [Reply (invalid_json_text method (str_decode_error e)) None]
          | LoadsRaises e \<Rightarrow> [Uncaught e]
          | Parsed parsed_json_data \<Rightarrow>
              Reply (sending_text method url json_data_str) None #
              (if method = lit ''POST'' then
                 let call = \<lparr>req_method = lit ''POST'', req_url = url,
                             req_json = Some parsed_json_data, req_timeout = 15\<rparr>
                 in [NetCall call,
                     Reply (post_put_reply_message lib method url (net call)) markdown_v2]
               else if method = lit ''PUT'' then
                 let call = \<lparr>req_method = lit ''PUT'', req_url = url,
                             req_json = Some parsed_json_data, req_timeout = 15\<rparr>
                 in [NetCall call,
                     Reply (post_put_reply_message lib method url (net call)) markdown_v2]
               else [Reply (lit ''Unsupported method internally.'') None]))"

definition handle_post ::
  "'j json_lib \<Rightarrow> ('j request \<Rightarrow> 'j net_result) \<Rightarrow> str \<Rightarrow> 'j event list" where
  "handle_post lib net message_text = handle_post_put lib net (lit ''POST'') message_text"

definition handle_put ::
  "'j json_lib \<Rightarrow> ('j request \<Rightarrow> 'j net_result) \<Rightarrow> str \<Rightarrow> 'j event list" where
  "handle_put lib net message_text = handle_post_put lib net (lit ''PUT'') message_text"

section \<open>The DELETE handler\<close>

text \<open>
  Lines 187-194: the body starts as \<open>response.text\<close> and is pretty-printed only when the
  response has content and \<open>response.json()\<close> and \<open>json.dumps\<close> return; a \<open>ValueError\<close>
  keeps the text, any other exception goes to the outer \<open>try\<close>.
\<close>

definition format_body_delete :: "'j json_lib \<Rightarrow> 'j response \<Rightarrow> str + str" where
  "format_body_delete lib response =
     (if content response \<noteq> [] then
        (case json_body response of
           Returns response_json \<Rightarrow>
             (case dumps_indent lib response_json of
                Returns response_body_formatted \<Rightarrow> Inr response_body_formatted
              | RaisesValueError \<Rightarrow> Inr (text_body response)
              | RaisesOther e \<Rightarrow> Inl e)
         | RaisesValueError \<Rightarrow> Inr (text_body response)
         | RaisesOther e \<Rightarrow> Inl e)
      else Inr (text_body response))"

text \<open>Lines 196-209: the text of the final reply.\<close>

definition delete_unexpected_error_text :: "str \<Rightarrow> str \<Rightarrow> str" where
  "delete_unexpected_error_text url e =
     cross_mark @ lit '' *An unexpected error occurred for DELETE to '' @ url
     @ lit ''*\<newline>\<newline>`'' @ e @ lit ''`''"

definition delete_reply_message :: "'j json_lib \<Rightarrow> str \<Rightarrow> 'j net_result \<Rightarrow> str" where
  "delete_reply_message lib url outcome =
     (case outcome of
        Response response \<Rightarrow>
          (case format_body_delete lib response of
             Inl e \<Rightarrow> delete_unexpected_error_text url e
           | Inr body \<Rightarrow>
               (let response_body_formatted = truncate_body body
                in check_mark @ lit '' *DELETE Response from '' @ url @ lit ''*\<newline>\<newline>''
                   @ lit ''*Status Code:* `'' @ str_int (status_code response) @ lit '' ''
                   @ reason response @ lit ''`\<newline>\<newline>''
                   @ lit ''*Body:*\<newline>```\<newline>''
                   @ (if response_body_formatted \<noteq> [] then response_body_formatted
                      else lit ''(No response body)'')
                   @ lit ''\<newline>```''))
      | Timeout \<Rightarrow>
          cross_mark @ lit '' *Timeout Error*\<newline>\<newline>The DELETE request to '' @ url
          @ lit '' timed out.''
      | RequestException e \<Rightarrow>
          cross_mark @ lit '' *Request Error for DELETE to '' @ url
          @ lit ''*\<newline>\<newline>`'' @ e @ lit ''`''
      | OtherException e \<Rightarrow> delete_unexpected_error_text url e)"

text \<open>\<open>handle_delete\<close>, lines 169-211.\<close>

definition handle_delete ::
  "'j json_lib \<Rightarrow> ('j request \<Rightarrow> 'j net_result) \<Rightarrow> str list \<Rightarrow> 'j event list" where
  "handle_delete lib net args =
     (case args of
        [] \<Rightarrow> [Reply (lit ''Please provide a URL.\<newline>Usage: `/delete <URL>`'') None]
      | url # _ \<Rightarrow>
          if \<not> url_has_scheme url then [Reply invalid_url_text None]
          else
            let call = \<lparr>req_method = lit ''DELETE'', req_url = url, req_json = None,
                        req_timeout = 15\<rparr>
            in [Reply (play_button @ lit '' Sending DELETE request to: '' @ url @ lit ''...'')
                  None,
                NetCall call,
                Reply (delete_reply_message lib url (net call)) markdown_v2])"

section \<open>Observations on a run\<close>


fun is_net_call :: "'j event \<Rightarrow> bool" where
  "is_net_call (Reply _ _) = False"
| "is_net_call (NetCall _) = True"
| "is_net_call (Uncaught _) = False"


definition net_calls :: "'j event list \<Rightarrow> 'j event list" where
  "net_calls run = filter is_net_call run"


section \<open>The specification's words\<close>

text \<open>
  The specification speaks of whitespace and of tokens. \<open>is_whitespace\<close> is the
  whitespace of Python's \<open>str.isspace\<close>. \<open>spec_split_whitespace n\<close> follows the
  specification's sentence "split the raw text on whitespace into at most three parts":
  runs of whitespace separate the parts and at most \<open>n\<close> cuts are made, as
  \<open>text.split(None, n)\<close> does. \<open>no_url_token\<close> follows "contains no URL token after the
  command name": past the first whitespace there is nothing but whitespace.
\<close>

definition is_whitespace :: "nat \<Rightarrow> bool" where
  "is_whitespace c =
     ((9 \<le> c \<and> c \<le> 13) \<or> (28 \<le> c \<and> c \<le> 32) \<or> c = 133 \<or> c = 160 \<or> c = 5760
      \<or> (8192 \<le> c \<and> c \<le> 8202) \<or> c = 8232 \<or> c = 8233 \<or> c = 8239 \<or> c = 8287
      \<or> c = 12288)"

fun spec_split_whitespace :: "nat \<Rightarrow> str \<Rightarrow> str list" where
  "spec_split_whitespace 0 s =
     (let t = dropWhile is_whitespace s in if t = [] then [] else [t])"
| "spec_split_whitespace (Suc n) s =
     (let t = dropWhile is_whitespace s in
      if t = [] then []
      else takeWhile (\<lambda>c. \<not> is_whitespace c) t
           # spec_split_whitespace n (dropWhile (\<lambda>c. \<not> is_whitespace c) t))"

definition no_url_token :: "str \<Rightarrow> bool" where
  "no_url_token message_text =
     list_all is_whitespace (dropWhile (\<lambda>c. \<not> is_whitespace c) message_text)"

section \<open>An instance of the collaborators\<close>

text \<open>
  A JSON library and two servers small enough to evaluate, for the concrete examples. The
  library knows the empty object, the empty array and \<open>null\<close>, with spaces around them,
  answers every other text with the error of a text that starts with no JSON value, and
  prints a header mapping whose names and values need no escaping.
\<close>

datatype example_json = EmptyObject | EmptyArray | Null

definition strip_spaces :: "str \<Rightarrow> str" where
  "strip_spaces s = rev (dropWhile (\<lambda>c. c = 32) (rev (dropWhile (\<lambda>c. c = 32) s)))"

definition expecting_value :: decode_error where
  "expecting_value =
     \<lparr>err_msg = lit ''Expecting value'', err_lineno = 1, err_colno = 1, err_pos = 0\<rparr>"

definition example_loads :: "str \<Rightarrow> example_json loads_outcome" where
  "example_loads s =
     (if strip_spaces s = lit ''{}'' then Parsed EmptyObject
      else if strip_spaces s = lit ''[]'' then Parsed EmptyArray
      else if strip_spaces s = lit ''null'' then Parsed Null
      else JSONDecodeError expecting_value)"

fun example_dumps :: "example_json \<Rightarrow> str" where
  "example_dumps EmptyObject = lit ''{}''"
| "example_dumps EmptyArray = lit ''[]''"
| "example_dumps Null = lit ''null''"

fun example_header_lines :: "(str \<times> str) list \<Rightarrow> str" where
  "example_header_lines [] = []"
| "example_header_lines [(k, v)] = lit ''  \"'' @ k @ lit ''\": \"'' @ v @ lit ''\"''"
| "example_header_lines ((k, v) # h # hs) =
     lit ''  \"'' @ k @ lit ''\": \"'' @ v @ lit ''\",\<newline>''
     @ example_header_lines (h # hs)"

definition example_dumps_headers :: "(str \<times> str) list \<Rightarrow> str" where
  "example_dumps_headers h =
     (if h = [] then lit ''{}''
      else lit ''{\<newline>'' @ example_header_lines h @ lit ''\<newline>}'')"

definition example_lib :: "example_json json_lib" where
  "example_lib =
     \<lparr>loads = example_loads, is_none = (\<lambda>v. v = Null),
      dumps = (\<lambda>v. Some (example_dumps v)),
      dumps_indent = (\<lambda>v. Returns (example_dumps v)),
      dumps_headers = example_dumps_headers\<rparr>"

text \<open>A \<open>200 OK\<close> response with the body \<open>{}\<close>, and a server that always gives it.\<close>

definition ok_response :: "example_json response" where
  "ok_response =
     \<lparr>status_code = 200, reason = lit ''OK'',
      headers = [(lit ''Content-Type'', lit ''application/json'')],
      content = lit ''{}'', text_body = lit ''{}'', json_body = Returns EmptyObject\<rparr>"

definition ok_server :: "example_json request \<Rightarrow> example_json net_result" where
  "ok_server call = Response ok_response"

text \<open>
  A \<open>204 No Content\<close> response with no body, on which \<open>response.json()\<close> raises its
  \<open>JSONDecodeError\<close>, a \<open>ValueError\<close>; and a server that always gives it.
\<close>

definition no_content_response :: "example_json response" where
  "no_content_response =
     \<lparr>status_code = 204, reason = lit ''No Content'', headers = [], content = [],
      text_body = [], json_body = RaisesValueError\<rparr>"

definition no_content_server :: "example_json request \<Rightarrow> example_json net_result" where
  "no_content_server call = Response no_content_response"

text \<open>
  A \<open>200 OK\<close> response whose body nests arrays too deep: \<open>response.json()\<close> raises
  \<open>RecursionError\<close>, which is no \<open>ValueError\<close>.
\<close>

definition deep_response :: "example_json response" where
  "deep_response =
     \<lparr>status_code = 200, reason = lit ''OK'',
      headers = [(lit ''Content-Type'', lit ''application/json'')],
      content = replicate 2000 91, text_body = replicate 2000 91,
      json_body = RaisesOther (lit ''maximum recursion depth exceeded'')\<rparr>"

section \<open>Truncation\<close>






lemma format_body_raises:
  "json_body r = RaisesOther e
   \<or> (\<exists>j. json_body r = Returns j \<and> dumps_indent lib j = RaisesOther e) \<Longrightarrow>
     format_body lib r = Inl e"
  by (auto simp: format_body_def)





section \<open>Rendering a response\<close>

lemma get_reply_success:
  "format_body lib r = Inr b \<Longrightarrow>
     get_reply_message lib url (Response r)
       = check_mark @ lit '' *GET Response from '' @ url @ lit ''*\<newline>\<newline>''
         @ lit ''*Status Code:* `'' @ str_int (status_code r) @ lit '' '' @ reason r
         @ lit ''`\<newline>\<newline>''
         @ lit ''*Headers:*\<newline>```json\<newline>''
         @ (if length (dumps_headers lib (headers r)) > 1000
            then take 1000 (dumps_headers lib (headers r))
                 @ lit ''\<newline>\<newline>... (headers truncated)''
            else dumps_headers lib (headers r))
         @ lit ''\<newline>```\<newline>\<newline>''
         @ lit ''*Body:*\<newline>```json\<newline>'' @ truncate_body b @ lit ''\<newline>```''"
  by (simp add: get_reply_message_def truncate_headers_def Let_def)

lemma post_put_reply_success:
  "format_body lib r = Inr b \<Longrightarrow>
     post_put_reply_message lib method url (Response r)
       = check_mark @ lit '' *'' @ method @ lit '' Response from '' @ url
         @ lit ''*\<newline>\<newline>''
         @ lit ''*Status Code:* `'' @ str_int (status_code r) @ lit '' '' @ reason r
         @ lit ''`\<newline>\<newline>''
         @ lit ''*Body:*\<newline>```json\<newline>'' @ truncate_body b @ lit ''\<newline>```''"
  by (simp add: post_put_reply_message_def Let_def)

lemma delete_reply_success:
  "format_body_delete lib r = Inr b \<Longrightarrow>
     delete_reply_message lib url (Response r)
       = check_mark @ lit '' *DELETE Response from '' @ url @ lit ''*\<newline>\<newline>''
         @ lit ''*Status Code:* `'' @ str_int (status_code r) @ lit '' '' @ reason r
         @ lit ''`\<newline>\<newline>''
         @ lit ''*Body:*\<newline>```\<newline>''
         @ (if truncate_body b \<noteq> [] then truncate_body b else lit ''(No response body)'')
         @ lit ''\<newline>```''"
  by (simp add: delete_reply_message_def Let_def)

lemma format_body_ignores_headers:
  "format_body lib (r\<lparr>headers := h\<rparr>) = format_body lib r"
  by (simp add: format_body_def split: outcome.split)

lemma format_body_delete_ignores_headers:
  "format_body_delete lib (r\<lparr>headers := h\<rparr>) = format_body_delete lib r"
  by (simp add: format_body_delete_def split: outcome.split)

lemma post_put_reply_ignores_headers:
  "post_put_reply_message lib method url (Response (r\<lparr>headers := h\<rparr>))
     = post_put_reply_message lib method url (Response r)"
  by (simp add: post_put_reply_message_def format_body_ignores_headers Let_def
      split: sum.split)

lemma delete_reply_ignores_headers:
  "delete_reply_message lib url (Response (r\<lparr>headers := h\<rparr>))
     = delete_reply_message lib url (Response r)"
  by (simp add: delete_reply_message_def format_body_delete_ignores_headers Let_def
      split: sum.split)

text \<open>
  Claim C5, as the code has it. For a successful response whose body formats, that is
  when \<open>response.json()\<close> and \<open>json.dumps\<close> return or raise \<open>ValueError\<close>, the GET reply
  has the headers section between its status line and its body block: the indented JSON
  of the header mapping, whole when it has 1000 characters or fewer and cut to 1000 plus
  the marker otherwise. The POST, PUT and DELETE replies go from the status line straight
  to the body block, with no headers section, and they are the same whatever the headers
  of the response are.
\<close>

theorem headers_only_in_get_reply:
  "(format_body lib r = Inr b \<longrightarrow>
      get_reply_message lib url (Response r)
        = check_mark @ lit '' *GET Response from '' @ url @ lit ''*\<newline>\<newline>''
          @ lit ''*Status Code:* `'' @ str_int (status_code r) @ lit '' '' @ reason r
          @ lit ''`\<newline>\<newline>''
          @ lit ''*Headers:*\<newline>```json\<newline>''
          @ (if length (dumps_headers lib (headers r)) > 1000
             then take 1000 (dumps_headers lib (headers r))
                  @ lit ''\<newline>\<newline>... (headers truncated)''
             else dumps_headers lib (headers r))
          @ lit ''\<newline>```\<newline>\<newline>''
          @ lit ''*Body:*\<newline>```json\<newline>'' @ truncate_body b @ lit ''\<newline>```''
      \<and> post_put_reply_message lib method url (Response r)
        = check_mark @ lit '' *'' @ method @ lit '' Response from '' @ url
          @ lit ''*\<newline>\<newline>''
          @ lit ''*Status Code:* `'' @ str_int (status_code r) @ lit '' '' @ reason r
          @ lit ''`\<newline>\<newline>''
          @ lit ''*Body:*\<newline>```json\<newline>'' @ truncate_body b @ lit ''\<newline>```'')
   \<and> (format_body_delete lib r = Inr d \<longrightarrow>
      delete_reply_message lib url (Response r)
        = check_mark @ lit '' *DELETE Response from '' @ url @ lit ''*\<newline>\<newline>''
          @ lit ''*Status Code:* `'' @ str_int (status_code r) @ lit '' '' @ reason r
          @ lit ''`\<newline>\<newline>''
          @ lit ''*Body:*\<newline>```\<newline>''
          @ (if truncate_body d \<noteq> [] then truncate_body d else lit ''(No response body)'')
          @ lit ''\<newline>```'')
   \<and> post_put_reply_message lib method url (Response (r\<lparr>headers := h\<rparr>))
       = post_put_reply_message lib method url (Response r)
   \<and> delete_reply_message lib url (Response (r\<lparr>headers := h\<rparr>))
       = delete_reply_message lib url (Response r)"
  using get_reply_success [of lib r b url] post_put_reply_success [of lib r b "method" url]
    delete_reply_success [of lib r d url]
    post_put_reply_ignores_headers [of lib "method" url h r]
    delete_reply_ignores_headers [of lib url h r]
  by blast

lemma ok_response_formats:
  "format_body example_lib ok_response = Inr (lit ''{}'')"
  "format_body_delete example_lib ok_response = Inr (lit ''{}'')"
  by (simp_all add: format_body_def format_body_delete_def ok_response_def example_lib_def
      lit_def)

lemma ok_response_headers_text:
  "dumps_headers example_lib (headers ok_response)
     = lit ''{\<newline>  \"Content-Type\": \"application/json\"\<newline>}''"
  by (simp add: example_lib_def ok_response_def example_dumps_headers_def lit_def)

lemma ok_response_status:
  "str_int (status_code ok_response) = lit ''200''" "reason ok_response = lit ''OK''"
  by (simp_all add: ok_response_def str_int_def lit_def)

lemma truncate_body_empty_object: "truncate_body (lit ''{}'') = lit ''{}''"
  by (simp add: truncate_body_def lit_def)

lemma lit_append: "lit a @ lit b = lit (a @ b)"
  by (simp add: lit_def)

lemma lit_append_assoc: "lit a @ lit b @ s = lit (a @ b) @ s"
  by (simp add: lit_def)

theorem headers_only_in_get_reply_witness:
  "format_body example_lib ok_response = Inr (lit ''{}'')
   \<and> format_body_delete example_lib ok_response = Inr (lit ''{}'')
   \<and> get_reply_message example_lib (lit ''https://example.com/ok'') (Response ok_response)
       = check_mark @ lit '' *GET Response from https://example.com/ok*\<newline>\<newline>*Status Code:* `200 OK`\<newline>\<newline>*Headers:*\<newline>```json\<newline>{\<newline>  \"Content-Type\": \"application/json\"\<newline>}\<newline>```\<newline>\<newline>*Body:*\<newline>```json\<newline>{}\<newline>```''
   \<and> post_put_reply_message example_lib (lit ''POST'') (lit ''https://example.com/ok'')
         (Response ok_response)
       = check_mark @ lit '' *POST Response from https://example.com/ok*\<newline>\<newline>*Status Code:* `200 OK`\<newline>\<newline>*Body:*\<newline>```json\<newline>{}\<newline>```''
   \<and> delete_reply_message example_lib (lit ''https://example.com/ok'') (Response ok_response)
       = check_mark @ lit '' *DELETE Response from https://example.com/ok*\<newline>\<newline>*Status Code:* `200 OK`\<newline>\<newline>*Body:*\<newline>```\<newline>{}\<newline>```''"
proof -
  have short: "\<not> length (lit ''{\<newline>  \"Content-Type\": \"application/json\"\<newline>}'') > 1000"
    by (simp add: lit_def)
  have nonempty: "lit ''{}'' \<noteq> []"
    by (simp add: lit_def)
  have "get_reply_message example_lib (lit ''https://example.com/ok'') (Response ok_response)
       = check_mark @ lit '' *GET Response from https://example.com/ok*\<newline>\<newline>*Status Code:* `200 OK`\<newline>\<newline>*Headers:*\<newline>```json\<newline>{\<newline>  \"Content-Type\": \"application/json\"\<newline>}\<newline>```\<newline>\<newline>*Body:*\<newline>```json\<newline>{}\<newline>```''
   \<and> post_put_reply_message example_lib (lit ''POST'') (lit ''https://example.com/ok'')
         (Response ok_response)
       = check_mark @ lit '' *POST Response from https://example.com/ok*\<newline>\<newline>*Status Code:* `200 OK`\<newline>\<newline>*Body:*\<newline>```json\<newline>{}\<newline>```''
   \<and> delete_reply_message example_lib (lit ''https://example.com/ok'') (Response ok_response)
       = check_mark @ lit '' *DELETE Response from https://example.com/ok*\<newline>\<newline>*Status Code:* `200 OK`\<newline>\<newline>*Body:*\<newline>```\<newline>{}\<newline>```''"
    using headers_only_in_get_reply [of example_lib ok_response "lit ''{}''"
        "lit ''https://example.com/ok''" "lit ''POST''" "lit ''{}''" "[]"]
      ok_response_formats short nonempty
    unfolding ok_response_headers_text ok_response_status truncate_body_empty_object
    by (simp add: lit_append lit_append_assoc)
  then show ?thesis
    using ok_response_formats by blast
qed

text \<open>
  The claim as worded, for every successful HTTP response, fails on a \<open>200 OK\<close> response
  whose body \<open>response.json()\<close> cannot parse for its depth: the \<open>RecursionError\<close> reaches
  \<open>except Exception\<close>, and the GET reply is the unexpected-error text, with no headers
  section.
\<close>

theorem headers_in_get_reply_counterexample:
  "get_reply_message example_lib (lit ''https://example.com/deep'') (Response deep_response)
     = cross_mark @ lit '' *An unexpected error occurred for https://example.com/deep*\<newline>\<newline>`maximum recursion depth exceeded`''"
proof -
  have "format_body example_lib deep_response = Inl (lit ''maximum recursion depth exceeded'')"
    by (simp add: format_body_def deep_response_def)
  then have "get_reply_message example_lib (lit ''https://example.com/deep'')
        (Response deep_response)
      = cross_mark @ lit '' *An unexpected error occurred for ''
        @ lit ''https://example.com/deep'' @ lit ''*\<newline>\<newline>`''
        @ lit ''maximum recursion depth exceeded'' @ lit ''`''"
    by (simp add: get_reply_message_def get_unexpected_error_text_def)
  then show ?thesis
    by (simp add: lit_append lit_append_assoc)
qed

lemma format_body_delete_no_content:
  "content r = [] \<Longrightarrow> format_body_delete lib r = Inr (text_body r)"
  by (simp add: format_body_delete_def)

lemma format_body_delete_pretty:
  "content r \<noteq> [] \<Longrightarrow> json_body r = Returns j \<Longrightarrow> dumps_indent lib j = Returns t \<Longrightarrow>
     format_body_delete lib r = Inr t"
  by (simp add: format_body_delete_def)

lemma delete_reply_no_content:
  assumes "content r = []" and "text_body r = []"
  shows "delete_reply_message lib url (Response r)
    = check_mark @ lit '' *DELETE Response from '' @ url @ lit ''*\<newline>\<newline>''
      @ lit ''*Status Code:* `'' @ str_int (status_code r) @ lit '' '' @ reason r
      @ lit ''`\<newline>\<newline>''
      @ lit ''*Body:*\<newline>```\<newline>'' @ lit ''(No response body)'' @ lit ''\<newline>```''"
proof -
  have "format_body_delete lib r = Inr []"
    using assms format_body_delete_no_content [of r lib] by simp
  moreover have "truncate_body [] = []"
    by (simp add: truncate_body_def)
  ultimately show ?thesis
    using delete_reply_success [of lib r "[]" url] by simp
qed

lemma delete_reply_with_json:
  assumes "content r \<noteq> []" and "json_body r = Returns j"
    and "dumps_indent lib j = Returns t" and "t \<noteq> []"
  shows "delete_reply_message lib url (Response r)
    = check_mark @ lit '' *DELETE Response from '' @ url @ lit ''*\<newline>\<newline>''
      @ lit ''*Status Code:* `'' @ str_int (status_code r) @ lit '' '' @ reason r
      @ lit ''`\<newline>\<newline>''
      @ lit ''*Body:*\<newline>```\<newline>'' @ truncate_body t
      @ lit ''\<newline>```''"
proof -
  have "truncate_body t \<noteq> []"
    using assms(4) by (auto simp: truncate_body_def)
  then show ?thesis
    using delete_reply_success [of lib r t url]
      format_body_delete_pretty [OF assms(1-3)]
    by simp
qed

lemma placeholder_nonempty: "lit ''(No response body)'' \<noteq> []"
  by (simp add: lit_def)

text \<open>
  Claim C6. For a DELETE response with no content at all (empty content, hence empty
  text), the body block of the reply shows the literal placeholder \<open>(No response body)\<close>
  and so is not the empty block an empty string would give. The placeholder stands for
  the missing body only: a response with content whose JSON prints to a non-empty text,
  such as the empty JSON string, shows that text in the block.
\<close>

theorem delete_no_content_placeholder:
  assumes "content r = []" and "text_body r = []"
  shows "delete_reply_message lib url (Response r)
      = check_mark @ lit '' *DELETE Response from '' @ url @ lit ''*\<newline>\<newline>''
        @ lit ''*Status Code:* `'' @ str_int (status_code r) @ lit '' '' @ reason r
        @ lit ''`\<newline>\<newline>''
        @ lit ''*Body:*\<newline>```\<newline>'' @ lit ''(No response body)'' @ lit ''\<newline>```''
    \<and> delete_reply_message lib url (Response r)
      \<noteq> check_mark @ lit '' *DELETE Response from '' @ url @ lit ''*\<newline>\<newline>''
        @ lit ''*Status Code:* `'' @ str_int (status_code r) @ lit '' '' @ reason r
        @ lit ''`\<newline>\<newline>''
        @ lit ''*Body:*\<newline>```\<newline>'' @ [] @ lit ''\<newline>```''
    \<and> (content r' \<noteq> [] \<and> json_body r' = Returns j \<and> dumps_indent lib j = Returns t
        \<and> t \<noteq> [] \<longrightarrow>
        delete_reply_message lib url (Response r')
        = check_mark @ lit '' *DELETE Response from '' @ url @ lit ''*\<newline>\<newline>''
          @ lit ''*Status Code:* `'' @ str_int (status_code r') @ lit '' '' @ reason r'
          @ lit ''`\<newline>\<newline>''
          @ lit ''*Body:*\<newline>```\<newline>'' @ truncate_body t
          @ lit ''\<newline>```'')"
proof -
  have "lit ''(No response body)'' @ lit ''\<newline>```'' \<noteq> [] @ lit ''\<newline>```''"
    using placeholder_nonempty by simp
  then show ?thesis
    using delete_reply_no_content [OF assms, of lib url]
      delete_reply_with_json [of r' j lib t url]
    by simp
qed

theorem delete_no_content_placeholder_witness:
  "content no_content_response = [] \<and> text_body no_content_response = []
   \<and> delete_reply_message example_lib (lit ''https://example.com/thing'')
         (Response no_content_response)
       = check_mark @ lit '' *DELETE Response from https://example.com/thing*\<newline>\<newline>*Status Code:* `204 No Content`\<newline>\<newline>*Body:*\<newline>```\<newline>(No response body)\<newline>```''
   \<and> content ok_response \<noteq> [] \<and> json_body ok_response = Returns EmptyObject
   \<and> dumps_indent example_lib EmptyObject = Returns (lit ''{}'') \<and> lit ''{}'' \<noteq> []
   \<and> delete_reply_message example_lib (lit ''https://example.com/thing'') (Response ok_response)
       = check_mark @ lit '' *DELETE Response from https://example.com/thing*\<newline>\<newline>*Status Code:* `200 OK`\<newline>\<newline>*Body:*\<newline>```\<newline>{}\<newline>```''
   \<and> handle_delete example_lib no_content_server [lit ''https://example.com/thing'']
       = [Reply (play_button @ lit '' Sending DELETE request to: ''
                 @ lit ''https://example.com/thing'' @ lit ''...'') None,
          NetCall \<lparr>req_method = lit ''DELETE'', req_url = lit ''https://example.com/thing'',
                    req_json = None, req_timeout = 15\<rparr>,
          Reply (delete_reply_message example_lib (lit ''https://example.com/thing'')
                  (Response no_content_response)) markdown_v2]"
proof -
  have u: "url_has_scheme (lit ''https://example.com/thing'')"
    by (simp add: url_has_scheme_def startswith_def lit_def)
  have h: "handle_delete example_lib no_content_server [lit ''https://example.com/thing'']
       = [Reply (play_button @ lit '' Sending DELETE request to: ''
                 @ lit ''https://example.com/thing'' @ lit ''...'') None,
          NetCall \<lparr>req_method = lit ''DELETE'', req_url = lit ''https://example.com/thing'',
                    req_json = None, req_timeout = 15\<rparr>,
          Reply (delete_reply_message example_lib (lit ''https://example.com/thing'')
                  (Response no_content_response)) markdown_v2]"
    using u by (simp add: handle_delete_def Let_def no_content_server_def)
  have a: "content no_content_response = []" "text_body no_content_response = []"
    by (simp_all add: no_content_response_def)
  have b: "content ok_response \<noteq> []" "json_body ok_response = Returns EmptyObject"
    by (simp_all add: ok_response_def lit_def)
  have c: "dumps_indent example_lib EmptyObject = Returns (lit ''{}'')" "lit ''{}'' \<noteq> []"
    by (simp_all add: example_lib_def lit_def)
  have d: "str_int (status_code no_content_response) = lit ''204''"
      "reason no_content_response = lit ''No Content''"
    by (simp_all add: no_content_response_def str_int_def lit_def)
  have "delete_reply_message example_lib (lit ''https://example.com/thing'')
         (Response no_content_response)
       = check_mark @ lit '' *DELETE Response from https://example.com/thing*\<newline>\<newline>*Status Code:* `204 No Content`\<newline>\<newline>*Body:*\<newline>```\<newline>(No response body)\<newline>```''
    \<and> delete_reply_message example_lib (lit ''https://example.com/thing'') (Response ok_response)
       = check_mark @ lit '' *DELETE Response from https://example.com/thing*\<newline>\<newline>*Status Code:* `200 OK`\<newline>\<newline>*Body:*\<newline>```\<newline>{}\<newline>```''"
    using delete_no_content_placeholder [OF a, of example_lib
        "lit ''https://example.com/thing''" ok_response EmptyObject "lit ''{}''"] b c
    unfolding d ok_response_status truncate_body_empty_object
    by (simp add: lit_append lit_append_assoc)
  then show ?thesis
    using a b c h by blast
qed

section \<open>Splitting the command text\<close>

lemma str_split_nonempty: "str_split sep n s \<noteq> []"
  by (cases n) simp_all

lemma str_split_length: "length (str_split sep n s) \<le> Suc n"
  by (induction n arbitrary: s) simp_all

lemma str_join_Cons:
  "ps \<noteq> [] \<Longrightarrow> str_join sep (p # ps) = p @ sep # str_join sep ps"
  by (cases ps) simp_all

lemma cut_at_sep:
  "sep \<in> set s \<Longrightarrow>
     takeWhile (\<lambda>c. c \<noteq> sep) s @ sep # tl (dropWhile (\<lambda>c. c \<noteq> sep) s) = s"
proof -
  assume "sep \<in> set s"
  then have "dropWhile (\<lambda>c. c \<noteq> sep) s \<noteq> []" by simp
  moreover from this have "hd (dropWhile (\<lambda>c. c \<noteq> sep) s) = sep"
    using hd_dropWhile [of "\<lambda>c. c \<noteq> sep" s] by simp
  ultimately have "dropWhile (\<lambda>c. c \<noteq> sep) s = sep # tl (dropWhile (\<lambda>c. c \<noteq> sep) s)"
    by (cases "dropWhile (\<lambda>c. c \<noteq> sep) s") simp_all
  then show ?thesis
    using takeWhile_dropWhile_id [of "\<lambda>c. c \<noteq> sep" s] by simp
qed

lemma str_split_join: "str_join sep (str_split sep n s) = s"
proof (induction n arbitrary: s)
  case 0
  show ?case by simp
next
  case (Suc n)
  show ?case
  proof (cases "sep \<in> set s")
    case True
    then show ?thesis
      using Suc [of "tl (dropWhile (\<lambda>c. c \<noteq> sep) s)"] cut_at_sep [of sep s]
      by (simp add: str_join_Cons str_split_nonempty)
  next
    case False
    then show ?thesis by simp
  qed
qed

lemma takeWhile_no_sep: "sep \<notin> set (takeWhile (\<lambda>c. c \<noteq> sep) s)"
  using set_takeWhileD [of sep "\<lambda>c. c \<noteq> sep" s] by blast

lemma str_split_no_sep:
  "i < length (str_split sep n s) \<Longrightarrow> i < n \<Longrightarrow> sep \<notin> set (str_split sep n s ! i)"
proof (induction n arbitrary: s i)
  case 0
  then show ?case by simp
next
  case (Suc n)
  show ?case
  proof (cases "sep \<in> set s")
    case True
    show ?thesis
    proof (cases i)
      case 0
      with True show ?thesis by (simp add: takeWhile_no_sep)
    next
      case (Suc j)
      with True Suc.prems Suc.IH [of j "tl (dropWhile (\<lambda>c. c \<noteq> sep) s)"]
      show ?thesis by simp
    qed
  next
    case False
    with Suc.prems show ?thesis by simp
  qed
qed

lemma str_split_single: "length (str_split sep (Suc n) s) < 2 \<longleftrightarrow> sep \<notin> set s"
  using str_split_nonempty [of sep n "tl (dropWhile (\<lambda>c. c \<noteq> sep) s)"]
  by (cases "str_split sep n (tl (dropWhile (\<lambda>c. c \<noteq> sep) s))") auto

lemma handle_post_put_missing_url:
  "length (str_split 32 2 message_text) < 2 \<Longrightarrow>
     handle_post_put lib net method message_text = [Reply (missing_url_text method) None]"
  by (simp add: handle_post_put_def)

text \<open>
  Claim C1, as the code has it. The parser cuts the raw text at its first two space
  characters, and at nothing else, into at most three parts {command, URL, remainder}:
  joining the parts with spaces gives the text back and the first two parts hold no
  space. The remainder, when present, is the JSON payload text, and the payload is
  \<open>"{}"\<close> when it is absent. The parser fails with MissingURL whenever fewer than two
  parts exist, which is exactly when the text holds no space.
\<close>

theorem post_put_parts:
  assumes "parts = str_split 32 2 message_text"
  shows "1 \<le> length parts \<and> length parts \<le> 3
    \<and> str_join 32 parts = message_text
    \<and> (\<forall>i < length parts. i < 2 \<longrightarrow> 32 \<notin> set (parts ! i))
    \<and> (length parts = 3 \<longrightarrow> payload_text parts = parts ! 2)
    \<and> (length parts < 3 \<longrightarrow> payload_text parts = lit ''{}'')
    \<and> (length parts < 2 \<longleftrightarrow> 32 \<notin> set message_text)
    \<and> (length parts < 2 \<longrightarrow>
         handle_post_put lib net method message_text
           = [Reply (missing_url_text method) None])"
proof -
  have "parts \<noteq> []"
    unfolding assms by (rule str_split_nonempty)
  then have "1 \<le> length parts"
    by (cases parts) simp_all
  moreover have "length parts \<le> 3"
    unfolding assms using str_split_length [of 32 2 message_text] by simp
  moreover have "str_join 32 parts = message_text"
    unfolding assms by (rule str_split_join)
  moreover have "\<forall>i < length parts. i < 2 \<longrightarrow> 32 \<notin> set (parts ! i)"
    unfolding assms using str_split_no_sep [of _ 32 2 message_text] by blast
  moreover have "length parts = 3 \<longrightarrow> payload_text parts = parts ! 2"
    by (simp add: payload_text_def)
  moreover have "length parts < 3 \<longrightarrow> payload_text parts = lit ''{}''"
    by (simp add: payload_text_def)
  moreover have "length parts < 2 \<longleftrightarrow> 32 \<notin> set message_text"
    unfolding assms using str_split_single [of 32 1 message_text]
    by (simp add: numeral_2_eq_2)
  moreover have "length parts < 2 \<longrightarrow>
      handle_post_put lib net method message_text = [Reply (missing_url_text method) None]"
    unfolding assms using handle_post_put_missing_url [of message_text lib net "method"]
    by blast
  ultimately show ?thesis by blast
qed

theorem post_put_parts_witness:
  "str_split 32 2 (lit ''/post http://a.b  {}'')
     = [lit ''/post'', lit ''http://a.b'', lit '' {}'']
   \<and> payload_text [lit ''/post'', lit ''http://a.b'', lit '' {}''] = lit '' {}''
   \<and> str_split 32 2 (lit ''/put'') = [lit ''/put'']
   \<and> payload_text [lit ''/put''] = lit ''{}''
   \<and> handle_post_put example_lib ok_server (lit ''PUT'') (lit ''/put'')
       = [Reply (lit ''Please provide a URL.\<newline>Usage: `/put <URL> <JSON_DATA>`'') None]"
proof -
  have a: "[lit ''/post'', lit ''http://a.b'', lit '' {}'']
      = str_split 32 2 (lit ''/post http://a.b  {}'')"
    by (simp add: lit_def numeral_2_eq_2)
  have b: "[lit ''/put''] = str_split 32 2 (lit ''/put'')"
    by (simp add: lit_def numeral_2_eq_2)
  have c: "missing_url_text (lit ''PUT'')
      = lit ''Please provide a URL.\<newline>Usage: `/put <URL> <JSON_DATA>`''"
    by (simp add: missing_url_text_def lower_def lower_char_def lit_def)
  have "payload_text [lit ''/post'', lit ''http://a.b'', lit '' {}''] = lit '' {}''"
    using post_put_parts [OF a, of example_lib ok_server "lit ''POST''"] by simp
  moreover have "payload_text [lit ''/put''] = lit ''{}''
      \<and> handle_post_put example_lib ok_server (lit ''PUT'') (lit ''/put'')
          = [Reply (missing_url_text (lit ''PUT'')) None]"
    using post_put_parts [OF b, of example_lib ok_server "lit ''PUT''"] by simp
  ultimately show ?thesis
    using a b c by simp
qed

text \<open>
  The claim as worded, a split on whitespace, fails on a command whose URL follows a line
  break: splitting on whitespace gives the two parts \<open>/post\<close> and \<open>http://a.b\<close>, the
  code keeps one part and reports MissingURL.
\<close>

theorem post_put_split_counterexample:
  "str_split 32 2 (lit ''/post\<newline>http://a.b'')
     \<noteq> spec_split_whitespace 2 (lit ''/post\<newline>http://a.b'')
   \<and> spec_split_whitespace 2 (lit ''/post\<newline>http://a.b'')
       = [lit ''/post'', lit ''http://a.b'']
   \<and> handle_post example_lib ok_server (lit ''/post\<newline>http://a.b'')
       = [Reply (lit ''Please provide a URL.\<newline>Usage: `/post <URL> <JSON_DATA>`'') None]"
proof -
  have a: "str_split 32 2 (lit ''/post\<newline>http://a.b'') = [lit ''/post\<newline>http://a.b'']"
    by (simp add: lit_def numeral_2_eq_2)
  have b: "spec_split_whitespace 2 (lit ''/post\<newline>http://a.b'')
      = [lit ''/post'', lit ''http://a.b'']"
    by (simp add: lit_def numeral_2_eq_2 is_whitespace_def)
  have c: "missing_url_text (lit ''POST'')
      = lit ''Please provide a URL.\<newline>Usage: `/post <URL> <JSON_DATA>`''"
    by (simp add: missing_url_text_def lower_def lower_char_def lit_def)
  have d: "handle_post example_lib ok_server (lit ''/post\<newline>http://a.b'')
      = [Reply (missing_url_text (lit ''POST'')) None]"
    using a by (simp add: handle_post_def handle_post_put_def)
  show ?thesis
    using a b c d by simp
qed

section \<open>URL validation\<close>

lemma url_has_scheme_nonempty: "url_has_scheme url \<Longrightarrow> url \<noteq> []"
  by (auto simp: url_has_scheme_def startswith_def lit_def)

lemma handle_get_invalid_url:
  "\<not> url_has_scheme url \<Longrightarrow> handle_get lib net (url # rest) = [Reply invalid_url_text None]"
  by (simp add: handle_get_def)

lemma handle_delete_invalid_url:
  "\<not> url_has_scheme url \<Longrightarrow>
     handle_delete lib net (url # rest) = [Reply invalid_url_text None]"
  by (simp add: handle_delete_def)

lemma handle_post_put_invalid_url:
  "2 \<le> length (str_split 32 2 message_text) \<Longrightarrow>
   \<not> url_has_scheme (str_split 32 2 message_text ! 1) \<Longrightarrow>
     handle_post_put lib net method message_text = [Reply invalid_url_text None]"
  by (simp add: handle_post_put_def Let_def)

lemma handle_get_call_url:
  "NetCall call \<in> set (handle_get lib net args) \<Longrightarrow> url_has_scheme (req_url call)"
  by (auto simp: handle_get_def Let_def split: list.splits if_splits)

lemma handle_delete_call_url:
  "NetCall call \<in> set (handle_delete lib net args) \<Longrightarrow> url_has_scheme (req_url call)"
  by (auto simp: handle_delete_def Let_def split: list.splits if_splits)

lemma handle_post_put_call_url:
  "NetCall call \<in> set (handle_post_put lib net method message_text) \<Longrightarrow>
     url_has_scheme (req_url call)"
  by (auto simp: handle_post_put_def Let_def split: loads_outcome.splits if_splits)

text \<open>
  Claim C3. When the URL argument of a command does not begin with \<open>http://\<close> or
  \<open>https://\<close>, the handler replies with the invalid-URL text and does nothing else, so
  no network call is made: for \<open>/get\<close> and \<open>/delete\<close> the URL is the first argument,
  for \<open>/post\<close> and \<open>/put\<close> it is the second part of the text. Consequently every
  network call a handler makes carries a URL that passed the scheme check and is not
  empty.
\<close>

theorem invalid_url_rejected:
  "(\<not> url_has_scheme url \<longrightarrow>
      handle_get lib net (url # rest) = [Reply invalid_url_text None]
      \<and> handle_delete lib net (url # rest) = [Reply invalid_url_text None])
   \<and> (2 \<le> length (str_split 32 2 message_text)
        \<and> \<not> url_has_scheme (str_split 32 2 message_text ! 1) \<longrightarrow>
      handle_post_put lib net method message_text = [Reply invalid_url_text None])
   \<and> net_calls [Reply invalid_url_text None :: 'j event] = []
   \<and> (NetCall call \<in> set (handle_get lib net args) \<union> set (handle_delete lib net args)
          \<union> set (handle_post_put lib net method message_text) \<longrightarrow>
      url_has_scheme (req_url call) \<and> req_url call \<noteq> [])"
  using handle_get_invalid_url [of url lib net rest]
    handle_delete_invalid_url [of url lib net rest]
    handle_post_put_invalid_url [of message_text lib net "method"]
    handle_get_call_url [of call lib net args]
    handle_delete_call_url [of call lib net args]
    handle_post_put_call_url [of call lib net "method" message_text]
    url_has_scheme_nonempty [of "req_url call"]
  by (auto simp: net_calls_def)


theorem invalid_url_rejected_witness:
  "\<not> url_has_scheme (lit ''badurl'')
   \<and> handle_get example_lib ok_server [lit ''badurl''] = [Reply invalid_url_text None]
   \<and> handle_delete example_lib ok_server [lit ''badurl''] = [Reply invalid_url_text None]
   \<and> 2 \<le> length (str_split 32 2 (lit ''/put badurl {}''))
   \<and> \<not> url_has_scheme (str_split 32 2 (lit ''/put badurl {}'') ! 1)
   \<and> handle_post_put example_lib ok_server (lit ''PUT'') (lit ''/put badurl {}'')
       = [Reply invalid_url_text None]
   \<and> NetCall \<lparr>req_method = lit ''GET'', req_url = lit ''http://a.b'', req_json = None,
               req_timeout = 15\<rparr>
       \<in> set (handle_get example_lib ok_server [lit ''http://a.b''])
   \<and> url_has_scheme (lit ''http://a.b'') \<and> lit ''http://a.b'' \<noteq> []"
proof -
  have a: "\<not> url_has_scheme (lit ''badurl'')"
    by (simp add: url_has_scheme_def startswith_def lit_def)
  have b: "str_split 32 2 (lit ''/put badurl {}'') = [lit ''/put'', lit ''badurl'', lit ''{}'']"
    by (simp add: lit_def numeral_2_eq_2)
  have c: "url_has_scheme (lit ''http://a.b'')"
    by (simp add: url_has_scheme_def startswith_def lit_def)
  have d: "NetCall \<lparr>req_method = lit ''GET'', req_url = lit ''http://a.b'', req_json = None,
               req_timeout = 15\<rparr>
       \<in> set (handle_get example_lib ok_server [lit ''http://a.b''])"
    using c by (simp add: handle_get_def Let_def)
  show ?thesis
    using a b c d
      invalid_url_rejected [of "lit ''badurl''" example_lib ok_server "[]"
        "lit ''/put badurl {}''" "lit ''PUT''"
        "\<lparr>req_method = lit ''GET'', req_url = lit ''http://a.b'', req_json = None,
               req_timeout = 15\<rparr>" "[lit ''http://a.b'']"]
    by auto
qed

lemma invalid_url_is_not_invalid_json: "invalid_url_text \<noteq> invalid_json_text method e"
  by (simp add: invalid_url_text_def invalid_json_text_def lit_def)

text \<open>
  Claim C10. When the URL of a POST/PUT command fails the scheme check, the handler
  replies with the invalid-URL text whatever the JSON library would say of the payload:
  the run is the same for every library, so the payload is never parsed, and the reply is
  not the invalid-JSON text even when the payload is malformed.
\<close>

theorem url_checked_before_json:
  assumes "2 \<le> length (str_split 32 2 message_text)"
    and "\<not> url_has_scheme (str_split 32 2 message_text ! 1)"
  shows "handle_post_put lib net method message_text = [Reply invalid_url_text None]
    \<and> handle_post_put lib' net' method message_text
        = handle_post_put lib net method message_text
    \<and> handle_post_put lib net method message_text \<noteq> [Reply (invalid_json_text method e) None]"
  using handle_post_put_invalid_url [OF assms, of lib net "method"]
    handle_post_put_invalid_url [OF assms, of lib' net' "method"]
    invalid_url_is_not_invalid_json [of "method" e]
  by simp

theorem url_checked_before_json_witness:
  "2 \<le> length (str_split 32 2 (lit ''/put badurl hello''))
   \<and> \<not> url_has_scheme (str_split 32 2 (lit ''/put badurl hello'') ! 1)
   \<and> loads example_lib (payload_text (str_split 32 2 (lit ''/put badurl hello'')))
       = JSONDecodeError expecting_value
   \<and> handle_put example_lib ok_server (lit ''/put badurl hello'')
       = [Reply (lit ''Invalid URL. Please include http:// or https://'') None]"
proof -
  have b: "str_split 32 2 (lit ''/put badurl hello'')
      = [lit ''/put'', lit ''badurl'', lit ''hello'']"
    by (simp add: lit_def numeral_2_eq_2)
  have a: "\<not> url_has_scheme (lit ''badurl'')"
    by (simp add: url_has_scheme_def startswith_def lit_def)
  have c: "loads example_lib (lit ''hello'') = JSONDecodeError expecting_value"
    by (simp add: example_lib_def example_loads_def strip_spaces_def lit_def)
  have h1: "2 \<le> length (str_split 32 2 (lit ''/put badurl hello''))"
    using b by simp
  have h2: "\<not> url_has_scheme (str_split 32 2 (lit ''/put badurl hello'') ! 1)"
    using a b by simp
  show ?thesis
    using url_checked_before_json [OF h1 h2, of example_lib ok_server "lit ''PUT''"
        example_lib ok_server "str_decode_error expecting_value"]
      a b c h1 h2
    by (simp add: handle_put_def invalid_url_text_def payload_text_def)
qed

section \<open>Commands without a URL\<close>

lemma set_dropWhile_mono:
  "(\<And>x. Q x \<Longrightarrow> P x) \<Longrightarrow> set (dropWhile P xs) \<subseteq> set (dropWhile Q xs)"
proof (induction xs)
  case Nil
  show ?case by simp
next
  case (Cons x xs)
  show ?case
  proof (cases "P x")
    case True
    have "set (dropWhile P xs) \<subseteq> set (dropWhile Q xs)"
      using Cons by blast
    moreover have "set (dropWhile Q xs) \<subseteq> set (dropWhile Q (x # xs))"
      using set_dropWhileD [of _ Q xs] by auto
    ultimately show ?thesis using True by simp
  next
    case False
    then have "\<not> Q x" using Cons.prems by blast
    with False show ?thesis by simp
  qed
qed

lemma str_split_second:
  "32 \<in> set s \<Longrightarrow>
     str_split 32 2 s ! 1 =
       (let rest = tl (dropWhile (\<lambda>c. c \<noteq> 32) s)
        in if 32 \<in> set rest then takeWhile (\<lambda>c. c \<noteq> 32) rest else rest)"
  by (simp add: numeral_2_eq_2 Let_def)

lemma url_has_scheme_hd: "url_has_scheme url \<Longrightarrow> url \<noteq> [] \<and> hd url = 104"
  by (cases url) (auto simp: url_has_scheme_def startswith_def lit_def)

lemma handle_post_put_no_space:
  "32 \<notin> set message_text \<Longrightarrow>
     handle_post_put lib net method message_text = [Reply (missing_url_text method) None]"
  by (simp add: handle_post_put_def numeral_2_eq_2)

lemma in_set_tl: "x \<in> set (tl xs) \<Longrightarrow> x \<in> set xs"
  by (cases xs) simp_all

lemma space_is_whitespace: "is_whitespace 32"
  by (simp add: is_whitespace_def)

lemma no_url_token_invalid:
  assumes "no_url_token message_text" and "32 \<in> set message_text"
  shows "\<not> url_has_scheme (str_split 32 2 message_text ! 1)"
proof
  define rest where "rest = tl (dropWhile (\<lambda>c. c \<noteq> 32) message_text)"
  define url where "url = str_split 32 2 message_text ! 1"
  assume "url_has_scheme (str_split 32 2 message_text ! 1)"
  then have "url_has_scheme url"
    by (simp add: url_def)
  then have "url \<noteq> []" and "hd url = 104"
    using url_has_scheme_hd [of url] by blast+
  then have in_url: "104 \<in> set url"
    using hd_in_set [of url] by simp
  have url_eq: "url = (if 32 \<in> set rest then takeWhile (\<lambda>c. c \<noteq> 32) rest else rest)"
    unfolding url_def rest_def using str_split_second [OF assms(2)] by (simp only: Let_def)
  have "104 \<in> set rest"
  proof (cases "32 \<in> set rest")
    case True
    then have "104 \<in> set (takeWhile (\<lambda>c. c \<noteq> 32) rest)"
      using in_url url_eq by simp
    then show ?thesis by (rule set_takeWhileD [THEN conjunct1])
  next
    case False
    then show ?thesis using in_url url_eq by simp
  qed
  then have "104 \<in> set (dropWhile (\<lambda>c. c \<noteq> 32) message_text)"
    unfolding rest_def by (rule in_set_tl)
  moreover have "set (dropWhile (\<lambda>c. c \<noteq> 32) message_text)
      \<subseteq> set (dropWhile (\<lambda>c. \<not> is_whitespace c) message_text)"
    by (rule set_dropWhile_mono) (use space_is_whitespace in blast)
  ultimately have "104 \<in> set (dropWhile (\<lambda>c. \<not> is_whitespace c) message_text)"
    by blast
  then have "is_whitespace 104"
    using assms(1) unfolding no_url_token_def list_all_iff by blast
  then show False by (simp add: is_whitespace_def)
qed

lemma handle_post_put_no_token:
  assumes "no_url_token message_text" and "32 \<in> set message_text"
  shows "handle_post_put lib net method message_text = [Reply invalid_url_text None]"
proof -
  have "2 \<le> length (str_split 32 2 message_text)"
    using assms(2) str_split_single [of 32 1 message_text] by (simp add: numeral_2_eq_2)
  then show ?thesis
    using no_url_token_invalid [OF assms] by (rule handle_post_put_invalid_url)
qed

lemma no_url_token_trimmed:
  assumes "no_url_token message_text"
    and "message_text \<noteq> []"
    and "\<not> is_whitespace (last message_text)"
  shows "32 \<notin> set message_text"
proof
  define d where "d = dropWhile (\<lambda>c. \<not> is_whitespace c) message_text"
  assume "32 \<in> set message_text"
  then have "d \<noteq> []"
    unfolding d_def using space_is_whitespace by (auto simp: dropWhile_eq_Nil_conv)
  moreover have "message_text = takeWhile (\<lambda>c. \<not> is_whitespace c) message_text @ d"
    unfolding d_def by simp
  ultimately have "last message_text = last d"
    using last_appendR [of d "takeWhile (\<lambda>c. \<not> is_whitespace c) message_text"] by simp
  moreover have "last d \<in> set d"
    using \<open>d \<noteq> []\<close> by (rule last_in_set)
  moreover have "\<forall>c \<in> set d. is_whitespace c"
    using assms(1) unfolding no_url_token_def d_def list_all_iff .
  ultimately show False
    using assms(3) by simp
qed

text \<open>
  What the handlers answer to a command with no URL. With no argument after the command
  name, \<open>/get\<close> and \<open>/delete\<close> reply with their missing-URL text. A \<open>/post\<close> or \<open>/put\<close>
  text with no space in it gets the missing-URL text too, and so does every text with no
  URL token that does not end in whitespace; a text with a space but no token after the
  command name gets the invalid-URL text. No network call is made in any of these cases.
\<close>

lemma missing_url_replies:
  "handle_get lib net [] = [Reply (lit ''Please provide a URL.\<newline>Usage: `/get <URL>`'') None]
   \<and> handle_delete lib net []
       = [Reply (lit ''Please provide a URL.\<newline>Usage: `/delete <URL>`'') None]
   \<and> (32 \<notin> set message_text \<longrightarrow>
        handle_post_put lib net method message_text = [Reply (missing_url_text method) None])
   \<and> (no_url_token message_text \<and> message_text \<noteq> []
        \<and> \<not> is_whitespace (last message_text) \<longrightarrow>
        handle_post_put lib net method message_text = [Reply (missing_url_text method) None])
   \<and> (no_url_token message_text \<and> 32 \<in> set message_text \<longrightarrow>
        handle_post_put lib net method message_text = [Reply invalid_url_text None])
   \<and> (no_url_token message_text \<longrightarrow>
        net_calls (handle_post_put lib net method message_text) = [])"
  using handle_post_put_no_space [of message_text lib net "method"]
    handle_post_put_no_token [of message_text lib net "method"]
    no_url_token_trimmed [of message_text]
  by (cases "32 \<in> set message_text")
    (auto simp: handle_get_def handle_delete_def net_calls_def)

text \<open>
  Claim C9. A command text with no URL token after the command name is to be answered
  with the missing-URL text, without a network call. The handlers of \<open>/get\<close> and
  \<open>/delete\<close> do so: for \<open>/get\<close> followed by a space the platform finds no argument. The
  handler of \<open>/post\<close> and \<open>/put\<close> misses the case: \<open>/post\<close> followed by a space has no URL
  token, yet the text splits into two parts, the second one empty, the check of line 103
  lets it through, and the reply is the invalid-URL text, not the missing-URL text.
\<close>

theorem post_without_url_reports_invalid_url:
  "no_url_token (lit ''/post '')
   \<and> str_split 32 2 (lit ''/post '') = [lit ''/post'', []]
   \<and> handle_post example_lib ok_server (lit ''/post '')
       = [Reply (lit ''Invalid URL. Please include http:// or https://'') None]
   \<and> handle_post example_lib ok_server (lit ''/post '')
       \<noteq> [Reply (lit ''Please provide a URL.\<newline>Usage: `/post <URL> <JSON_DATA>`'') None]
   \<and> handle_get example_lib ok_server []
       = [Reply (lit ''Please provide a URL.\<newline>Usage: `/get <URL>`'') None]"
proof -
  have a: "no_url_token (lit ''/post '')"
    by (simp add: no_url_token_def is_whitespace_def lit_def)
  have b: "str_split 32 2 (lit ''/post '') = [lit ''/post'', []]"
    by (simp add: lit_def numeral_2_eq_2)
  have c: "\<not> url_has_scheme []"
    by (simp add: url_has_scheme_def startswith_def lit_def)
  have d: "handle_post example_lib ok_server (lit ''/post '') = [Reply invalid_url_text None]"
    using b c by (simp add: handle_post_def handle_post_put_def)
  have e: "lit ''Invalid URL. Please include http:// or https://''
      \<noteq> lit ''Please provide a URL.\<newline>Usage: `/post <URL> <JSON_DATA>`''"
    by (simp add: lit_def)
  have f: "handle_get example_lib ok_server []
      = [Reply (lit ''Please provide a URL.\<newline>Usage: `/get <URL>`'') None]"
    by (simp add: handle_get_def)
  show ?thesis
    using a b d e f by (simp add: invalid_url_text_def)
qed

section \<open>The JSON payload\<close>

lemma handle_post_put_invalid_json:
  assumes "length (str_split 32 2 message_text) = 3"
    and "url_has_scheme (str_split 32 2 message_text ! 1)"
    and "loads lib (str_split 32 2 message_text ! 2) = JSONDecodeError e"
  shows "handle_post_put lib net method message_text
    = [Reply (invalid_json_text method (str_decode_error e)) None]"
  using assms by (simp add: handle_post_put_def payload_text_def Let_def)

lemma str_decode_error_nonempty: "str_decode_error e \<noteq> []"
  by (simp add: str_decode_error_def lit_def)

text \<open>
  Claim C8, as the code has it. When the URL of a POST/PUT command passes the scheme check
  and \<open>json.loads\<close> rejects the payload text, the third part of the command, with a
  \<open>JSONDecodeError\<close>, the handler replies with the invalid-JSON text and does nothing
  else, so no network call is made. The reply carries, between backquotes, the text of
  that error, which is built from its message, line, column and position and is never
  empty.
\<close>

theorem invalid_json_reported:
  assumes "parts = str_split 32 2 message_text"
    and "length parts = 3"
    and "url_has_scheme (parts ! 1)"
    and "loads lib (parts ! 2) = JSONDecodeError e"
  shows "handle_post_put lib net method message_text
      = [Reply (lit ''Invalid JSON data provided for '' @ method
                @ lit '' request.\<newline>Error: `'' @ str_decode_error e @ lit ''`\<newline>''
                @ lit ''Please ensure it's a well-formed JSON string.'') None]
    \<and> net_calls (handle_post_put lib net method message_text) = []
    \<and> str_decode_error e
        = err_msg e @ lit '': line '' @ str_nat (err_lineno e) @ lit '' column ''
          @ str_nat (err_colno e) @ lit '' (char '' @ str_nat (err_pos e) @ lit '')''
    \<and> str_decode_error e \<noteq> []"
  using handle_post_put_invalid_json [of message_text lib e net "method"] assms
    str_decode_error_nonempty [of e]
  by (simp add: net_calls_def invalid_json_text_def str_decode_error_def)

lemma str_expecting_value:
  "str_decode_error expecting_value = lit ''Expecting value: line 1 column 1 (char 0)''"
  by (simp add: str_decode_error_def expecting_value_def lit_def)

lemma loads_hello: "loads example_lib (lit ''hello'') = JSONDecodeError expecting_value"
  by (simp add: example_lib_def example_loads_def strip_spaces_def lit_def)

theorem invalid_json_reported_witness:
  "[lit ''/post'', lit ''http://a.b'', lit ''hello'']
     = str_split 32 2 (lit ''/post http://a.b hello'')
   \<and> url_has_scheme (lit ''http://a.b'')
   \<and> loads example_lib (lit ''hello'') = JSONDecodeError expecting_value
   \<and> handle_post_put example_lib ok_server (lit ''POST'') (lit ''/post http://a.b hello'')
       = [Reply (lit ''Invalid JSON data provided for POST request.\<newline>Error: `Expecting value: line 1 column 1 (char 0)`\<newline>Please ensure it's a well-formed JSON string.'') None]"
proof -
  have a: "[lit ''/post'', lit ''http://a.b'', lit ''hello'']
      = str_split 32 2 (lit ''/post http://a.b hello'')"
    by (simp add: lit_def numeral_2_eq_2)
  have b: "length [lit ''/post'', lit ''http://a.b'', lit ''hello''] = 3"
    by simp
  have c': "url_has_scheme (lit ''http://a.b'')"
    by (simp add: url_has_scheme_def startswith_def lit_def)
  have c: "url_has_scheme ([lit ''/post'', lit ''http://a.b'', lit ''hello''] ! 1)"
    using c' by simp
  have d: "loads example_lib ([lit ''/post'', lit ''http://a.b'', lit ''hello''] ! 2)
      = JSONDecodeError expecting_value"
    using loads_hello by simp
  have f: "lit ''Invalid JSON data provided for '' @ lit ''POST''
        @ lit '' request.\<newline>Error: `'' @ lit ''Expecting value: line 1 column 1 (char 0)''
        @ lit ''`\<newline>'' @ lit ''Please ensure it's a well-formed JSON string.''
      = lit ''Invalid JSON data provided for POST request.\<newline>Error: `Expecting value: line 1 column 1 (char 0)`\<newline>Please ensure it's a well-formed JSON string.''"
    by (simp add: lit_def)
  have g: "handle_post_put example_lib ok_server (lit ''POST'') (lit ''/post http://a.b hello'')
      = [Reply (lit ''Invalid JSON data provided for POST request.\<newline>Error: `Expecting value: line 1 column 1 (char 0)`\<newline>Please ensure it's a well-formed JSON string.'') None]"
    using invalid_json_reported [OF a b c d, of ok_server "lit ''POST''"]
    unfolding str_expecting_value f by blast
  show ?thesis
    using a c' loads_hello g by blast
qed

text \<open>
  The claim as worded, for every payload text that is not well-formed JSON, fails where
  the URL is invalid too: the payload \<open>hello\<close> is no JSON, and the reply to
  \<open>/post ftp://a.b hello\<close> is the invalid-URL text.
\<close>

theorem invalid_json_counterexample:
  "loads example_lib (payload_text (str_split 32 2 (lit ''/post ftp://a.b hello'')))
     = JSONDecodeError expecting_value
   \<and> handle_post example_lib ok_server (lit ''/post ftp://a.b hello'')
       = [Reply (lit ''Invalid URL. Please include http:// or https://'') None]
   \<and> handle_post example_lib ok_server (lit ''/post ftp://a.b hello'')
       \<noteq> [Reply (invalid_json_text (lit ''POST'') (str_decode_error expecting_value)) None]"
proof -
  have a: "str_split 32 2 (lit ''/post ftp://a.b hello'')
      = [lit ''/post'', lit ''ftp://a.b'', lit ''hello'']"
    by (simp add: lit_def numeral_2_eq_2)
  have b: "\<not> url_has_scheme (lit ''ftp://a.b'')"
    by (simp add: url_has_scheme_def startswith_def lit_def)
  have c: "handle_post example_lib ok_server (lit ''/post ftp://a.b hello'')
      = [Reply invalid_url_text None]"
    using a b by (simp add: handle_post_def handle_post_put_def)
  have d: "invalid_url_text
      \<noteq> invalid_json_text (lit ''POST'') (str_decode_error expecting_value)"
    by (simp add: invalid_url_text_def invalid_json_text_def lit_def)
  show ?thesis
    using a c d loads_hello by (simp add: payload_text_def invalid_url_text_def)
qed






section \<open>Replies sent by one invocation\<close>











end
